theory Spec2Isabelle
  imports Main "HOL-Library.Word" "HOL-Library.Multiset" "HOL-Library.Char_ord"
    "HOL-Library.List_Lexorder"
begin

section \<open>The messages of x/ibc/20-transfer/types/msgs.go\<close>

text \<open>
  The file declares two message types, \<open>MsgTransfer\<close> and \<open>MsgRecvPacket\<close>, with their
  constructors and the five methods of \<open>sdk.Msg\<close>. Everything else it names lives in other
  packages (\<open>sdk\<close>, \<open>sdkerrors\<close>, \<open>host\<close>, \<open>ibctypes\<close>, \<open>connectiontypes\<close>, \<open>commitment\<close>,
  \<open>channelexported\<close>) whose files are not part of the sources at hand. What the methods need
  of them enters the model in one of three ways, said at each place:
  \<^item> a package constant or function the methods call becomes an argument of the method
    (\<open>RouterKey\<close>, \<open>DefaultCodespace\<close>, the identifier validators of \<open>host\<close>);
  \<^item> an error constructor becomes a constructor of a datatype of error values;
  \<^item> a predicate or helper that the specification describes is defined from that
    description.
\<close>

subsection \<open>Go slices\<close>

text \<open>
  A slice is \<open>nil\<close> or holds a sequence of elements: \<open>None\<close> is the nil slice. \<open>len\<close> of the
  nil slice is 0 and a \<open>range\<close> loop over it runs no iteration.
\<close>

type_synonym 'a slice = "'a list option"

definition len :: "'a slice \<Rightarrow> nat" where
  "len s = (case s of None \<Rightarrow> 0 | Some xs \<Rightarrow> length xs)"

definition elems :: "'a slice \<Rightarrow> 'a list" where
  "elems s = (case s of None \<Rightarrow> [] | Some xs \<Rightarrow> xs)"

subsection \<open>Error values\<close>

text \<open>
  \<open>error\<close>: the values of Go's \<open>error\<close> interface that reach this file. \<open>Foreign\<close> is an
  error made by a collaborator (an identifier validator, a packet); \<open>Wrap\<close> is
  \<open>sdkerrors.Wrap(err, description)\<close> on a non-nil \<open>err\<close>; \<open>ErrInvalidHeight\<close> and
  \<open>ErrInvalidProof\<close> are the constructors of \<open>connectiontypes\<close> and \<open>ibctypes\<close>, applied to
  a codespace and a message.
\<close>

datatype 'e error =
    Foreign 'e
  | Wrap "'e error" string
  | ErrInvalidHeight string string
  | ErrInvalidProof string string

text \<open>
  \<open>sdk_Error\<close>: the non-nil values of \<open>sdk.Error\<close>. The first three are the constructors of
  package \<open>sdk\<close> the file calls; \<open>Converted\<close> is what \<open>sdk.ConvertError\<close> makes of an
  \<open>error\<close>.
\<close>

datatype 'e sdk_Error =
    ErrInvalidCoins string
  | ErrInsufficientCoins string
  | ErrInvalidAddress string
  | Converted "'e error"

text \<open>
  Modelled from the spec: \<open>sdk.ConvertError\<close> (package \<open>sdk\<close>, not among the sources).
  Section 4.3, step 5, has the result of the packet's validation propagated as it is: no
  error stays no error, an error stays that error, now as an \<open>sdk.Error\<close>.
\<close>

definition ConvertError :: "'e error option \<Rightarrow> 'e sdk_Error option" where
  "ConvertError err = (case err of None \<Rightarrow> None | Some e \<Rightarrow> Some (Converted e))"

text \<open>A run-time panic of Go, as opposed to a returned error.\<close>

datatype panic = NilPointerDereference

subsection \<open>Values of package sdk: coins and addresses\<close>

text \<open>
  Modelled from the spec: \<open>sdk.Coins\<close> and \<open>sdk.AccAddress\<close> (package \<open>sdk\<close>, not among the
  sources). Section 3: an amount is an ordered collection of (denomination, quantity)
  entries, an address is a byte sequence. The quantity is an integer of any size and sign,
  so that the non-positive amounts the checks are about can be written down.
\<close>

record Coin =
  denomination :: string
  quantity :: int

type_synonym Coins = "Coin list"

type_synonym AccAddress = "8 word list"

text \<open>
  Modelled from the spec: \<open>Coins.IsValid\<close>. Section 3: an amount is well-formed when it has
  no duplicate denominations and no negative quantities.
\<close>

definition Coins_IsValid :: "Coins \<Rightarrow> bool" where
  "Coins_IsValid coins \<longleftrightarrow>
     distinct (map denomination coins) \<and> list_all (\<lambda>c. 0 \<le> quantity c) coins"

text \<open>
  Modelled from the spec: \<open>Coins.IsAllPositive\<close>. Section 4.2, step 4: every entry of the
  amount is strictly positive.
\<close>

definition Coins_IsAllPositive :: "Coins \<Rightarrow> bool" where
  "Coins_IsAllPositive coins \<longleftrightarrow> list_all (\<lambda>c. 0 < quantity c) coins"

text \<open>
  Modelled from the spec: \<open>AccAddress.Empty\<close>. Section 6: the address type has an
  ``is empty'' predicate; a byte sequence is empty when it has no bytes.
\<close>

definition AccAddress_Empty :: "AccAddress \<Rightarrow> bool" where
  "AccAddress_Empty aa \<longleftrightarrow> aa = []"

subsection \<open>Package host: the identifier validators\<close>

text \<open>
  \<open>ValidateBasic\<close> on a transfer calls \<open>host.DefaultConnectionIdentifierValidator\<close> and
  \<open>host.DefaultClientIdentifierValidator\<close>. Their rules are not among the sources and the
  specification leaves them to the validator (section 6), so they are parameters: a
  validator maps an identifier to \<open>None\<close> (Go's \<open>nil\<close>: accepted) or to an error.
\<close>

record 'e host =
  DefaultConnectionIdentifierValidator :: "string \<Rightarrow> 'e error option"
  DefaultClientIdentifierValidator :: "string \<Rightarrow> 'e error option"

subsection \<open>MsgTransfer\<close>

record MsgTransfer =
  SourcePort :: string
  SourceChannel :: string
  Amount :: Coins
  Sender :: AccAddress
  Receiver :: AccAddress
  Source :: bool

definition NewMsgTransfer ::
  "string \<Rightarrow> string \<Rightarrow> Coins \<Rightarrow> AccAddress \<Rightarrow> AccAddress \<Rightarrow> bool \<Rightarrow> MsgTransfer" where
  "NewMsgTransfer sourcePort sourceChannel amount sender receiver source =
     \<lparr> SourcePort = sourcePort,
       SourceChannel = sourceChannel,
       Amount = amount,
       Sender = sender,
       Receiver = receiver,
       Source = source \<rparr>"

text \<open>\<open>Route\<close> returns \<open>ibctypes.RouterKey\<close>, a constant of another package: its first argument.\<close>

definition MsgTransfer_Route :: "string \<Rightarrow> MsgTransfer \<Rightarrow> string" where
  "MsgTransfer_Route RouterKey msg = RouterKey"

definition MsgTransfer_Type :: "MsgTransfer \<Rightarrow> string" where
  "MsgTransfer_Type msg = ''transfer''"

definition MsgTransfer_ValidateBasic :: "'e host \<Rightarrow> MsgTransfer \<Rightarrow> 'e sdk_Error option" where
  "MsgTransfer_ValidateBasic host msg =
     (case DefaultConnectionIdentifierValidator host (SourcePort msg) of
        Some err \<Rightarrow> ConvertError (Some (Wrap err ''invalid source port ID''))
      | None \<Rightarrow>
     (case DefaultClientIdentifierValidator host (SourceChannel msg) of
        Some err \<Rightarrow> ConvertError (Some (Wrap err ''invalid source channel ID''))
      | None \<Rightarrow>
        if \<not> Coins_IsValid (Amount msg) then
          Some (ErrInvalidCoins ''transfer amount is invalid'')
        else if \<not> Coins_IsAllPositive (Amount msg) then
          Some (ErrInsufficientCoins ''transfer amount must be positive'')
        else if AccAddress_Empty (Sender msg) then
          Some (ErrInvalidAddress ''missing sender address'')
        else if AccAddress_Empty (Receiver msg) then
          Some (ErrInvalidAddress ''missing recipient address'')
        else None))"

definition MsgTransfer_GetSigners :: "MsgTransfer \<Rightarrow> AccAddress list" where
  "MsgTransfer_GetSigners msg = [Sender msg]"

subsection \<open>MsgRecvPacket\<close>

text \<open>
  \<open>channelexported.PacketI\<close> is an interface declared in another package; the one method
  this file calls is \<open>ValidateBasic() error\<close>. A non-nil interface value is modelled by its
  methods, here the result of that call. The field \<open>Packet\<close> of the message may also hold
  the nil interface (\<open>None\<close>), on which a method call panics.
\<close>

record 'e PacketI =
  PacketI_ValidateBasic :: "'e error option"

text \<open>
  The call \<open>p.ValidateBasic()\<close> on an interface value \<open>p\<close>: a nil pointer dereference on
  the nil interface, the method's result otherwise.
\<close>

definition Packet_ValidateBasic :: "'e PacketI option \<Rightarrow> panic + 'e error option" where
  "Packet_ValidateBasic p =
     (case p of None \<Rightarrow> Inl NilPointerDereference | Some packet \<Rightarrow> Inr (PacketI_ValidateBasic packet))"

text \<open>
  \<open>commitment.Proof\<close> is a struct of another package. The file reads its field \<open>Proof\<close> and
  compares it with \<open>nil\<close>; what a non-nil field holds is never inspected, so its type is
  the parameter \<open>'m\<close>.
\<close>

record 'm commitment_Proof =
  Proof :: "'m option"

record ('e, 'm) MsgRecvPacket =
  Packet :: "'e PacketI option"
  Proofs :: "'m commitment_Proof slice"
  Height :: "64 word"
  Signer :: AccAddress

definition NewMsgRecvPacket ::
  "'e PacketI option \<Rightarrow> 'm commitment_Proof slice \<Rightarrow> 64 word \<Rightarrow> AccAddress
     \<Rightarrow> ('e, 'm) MsgRecvPacket" where
  "NewMsgRecvPacket packet proofs height signer =
     \<lparr> Packet = packet,
       Proofs = proofs,
       Height = height,
       Signer = signer \<rparr>"

definition MsgRecvPacket_Route :: "string \<Rightarrow> ('e, 'm) MsgRecvPacket \<Rightarrow> string" where
  "MsgRecvPacket_Route RouterKey msg = RouterKey"

definition MsgRecvPacket_Type :: "('e, 'm) MsgRecvPacket \<Rightarrow> string" where
  "MsgRecvPacket_Type msg = ''recv_packet''"

text \<open>
  The loop \<open>for _, proof := range msg.Proofs\<close> of \<open>ValidateBasic\<close>: it returns from the
  method at the first proof whose field is nil (\<open>Some\<close> of the error returned), and falls
  through to the next statement (\<open>None\<close>) when there is none.
\<close>

fun range_Proofs :: "string \<Rightarrow> 'm commitment_Proof list \<Rightarrow> 'e error option" where
  "range_Proofs DefaultCodespace [] = None"
| "range_Proofs DefaultCodespace (proof # rest) =
     (if Proof proof = None then
        Some (ErrInvalidProof DefaultCodespace ''cannot submit an empty proof'')
      else range_Proofs DefaultCodespace rest)"

text \<open>
  \<open>DefaultCodespace\<close> is a constant of this package declared in another file: the first
  argument. The result is \<open>Inl\<close> of a panic, or \<open>Inr\<close> of the \<open>sdk.Error\<close> returned.
\<close>

definition MsgRecvPacket_ValidateBasic ::
  "string \<Rightarrow> ('e, 'm) MsgRecvPacket \<Rightarrow> panic + 'e sdk_Error option" where
  "MsgRecvPacket_ValidateBasic DefaultCodespace msg =
     (if Height msg = 0 then
        Inr (ConvertError (Some (ErrInvalidHeight DefaultCodespace ''height must be > 0'')))
      else if Proofs msg = None \<or> len (Proofs msg) = 0 then
        Inr (ConvertError (Some (ErrInvalidProof DefaultCodespace ''missing proofs'')))
      else
        (case range_Proofs DefaultCodespace (elems (Proofs msg)) of
           Some err \<Rightarrow> Inr (ConvertError (Some err))
         | None \<Rightarrow>
             if AccAddress_Empty (Signer msg) then
               Inr (Some (ErrInvalidAddress ''missing signer address''))
             else
               (case Packet_ValidateBasic (Packet msg) of
                  Inl pnc \<Rightarrow> Inl pnc
                | Inr err \<Rightarrow> Inr (ConvertError err))))"

definition MsgRecvPacket_GetSigners :: "('e, 'm) MsgRecvPacket \<Rightarrow> AccAddress list" where
  "MsgRecvPacket_GetSigners msg = [Signer msg]"

subsection \<open>Sign bytes of MsgTransfer\<close>

text \<open>
  \<open>GetSignBytes\<close> is \<open>sdk.MustSortJSON(ModuleCdc.MustMarshalJSON(msg))\<close>. Neither function
  nor the codec \<open>ModuleCdc\<close> is among the sources; the struct's \<open>json\<close> tags are. One
  member of the JSON object per field of the struct, keyed by its tag:
\<close>

datatype field =
  Field_SourcePort | Field_SourceChannel | Field_Amount | Field_Sender | Field_Receiver
  | Field_Source

fun json_tag :: "field \<Rightarrow> string" where
  "json_tag Field_SourcePort = ''source_port''"
| "json_tag Field_SourceChannel = ''source_channel''"
| "json_tag Field_Amount = ''amount''"
| "json_tag Field_Sender = ''sender''"
| "json_tag Field_Receiver = ''receiver''"
| "json_tag Field_Source = ''source''"

text \<open>
  Modelled from the spec: the codec \<open>ModuleCdc\<close>. The specification says nothing of how a
  string, an amount, an address or a boolean is written, nor in which order the marshaller
  emits the members, so a codec is these five parameters. An encoder gives the JSON text
  of a value, as it stands in the sign bytes.
\<close>

record Codec =
  member_order :: "field list"
  encode_string :: "string \<Rightarrow> string"
  encode_Coins :: "Coins \<Rightarrow> string"
  encode_AccAddress :: "AccAddress \<Rightarrow> string"
  encode_bool :: "bool \<Rightarrow> string"

fun field_json :: "Codec \<Rightarrow> MsgTransfer \<Rightarrow> field \<Rightarrow> string" where
  "field_json cdc msg Field_SourcePort = encode_string cdc (SourcePort msg)"
| "field_json cdc msg Field_SourceChannel = encode_string cdc (SourceChannel msg)"
| "field_json cdc msg Field_Amount = encode_Coins cdc (Amount msg)"
| "field_json cdc msg Field_Sender = encode_AccAddress cdc (Sender msg)"
| "field_json cdc msg Field_Receiver = encode_AccAddress cdc (Receiver msg)"
| "field_json cdc msg Field_Source = encode_bool cdc (Source msg)"

text \<open>
  A JSON object in the making: its members, each a key and the JSON text of its value, in
  the order they will be written.
\<close>

type_synonym json_object = "(string \<times> string) list"

text \<open>
  Modelled from the spec: \<open>Codec.MustMarshalJSON\<close>. Section 4.1: a serialization of the
  message's fields. The members come out in the codec's order.
\<close>

definition MustMarshalJSON :: "Codec \<Rightarrow> MsgTransfer \<Rightarrow> json_object" where
  "MustMarshalJSON cdc msg = map (\<lambda>f. (json_tag f, field_json cdc msg f)) (member_order cdc)"

fun join_members :: "string list \<Rightarrow> string" where
  "join_members [] = []"
| "join_members [m] = m"
| "join_members (m # m' # ms) = m @ '','' @ join_members (m' # ms)"

definition write_member :: "string \<times> string \<Rightarrow> string" where
  "write_member kv = [CHR 0x22] @ fst kv @ [CHR 0x22] @ '':'' @ snd kv"

definition write_object :: "json_object \<Rightarrow> string" where
  "write_object obj = ''{'' @ join_members (map write_member obj) @ ''}''"

text \<open>
  Modelled from the spec: \<open>sdk.MustSortJSON\<close>. Sections 4.1, 6 and 9: the canonical form has
  the key order normalised, by sorting the keys before the bytes are written. Keys compare
  as byte strings.
\<close>

definition MustSortJSON :: "json_object \<Rightarrow> string" where
  "MustSortJSON obj = write_object (sort_key fst obj)"

definition MsgTransfer_GetSignBytes :: "Codec \<Rightarrow> MsgTransfer \<Rightarrow> string" where
  "MsgTransfer_GetSignBytes ModuleCdc msg = MustSortJSON (MustMarshalJSON ModuleCdc msg)"

subsection \<open>What the specification's properties speak of\<close>

text \<open>An amount with an entry whose quantity is zero or negative (section 8).\<close>

definition has_nonpositive_quantity :: "Coins \<Rightarrow> bool" where
  "has_nonpositive_quantity coins \<longleftrightarrow> list_ex (\<lambda>c. quantity c \<le> 0) coins"

text \<open>A proof whose proof bytes are missing: the field the method compares with nil.\<close>

definition empty_proof :: "'m commitment_Proof \<Rightarrow> bool" where
  "empty_proof p \<longleftrightarrow> Proof p = None"

subsection \<open>Concrete collaborators and messages\<close>

text \<open>
  An instance of package \<open>host\<close> on which the theorems below are run: both validators
  accept an identifier of 1 to 20 characters. Any other instance would do.
\<close>

definition example_validator :: "string \<Rightarrow> string error option" where
  "example_validator ident =
     (if ident = [] \<or> 20 < length ident then Some (Foreign ''invalid identifier'') else None)"

definition example_host :: "string host" where
  "example_host =
     \<lparr> DefaultConnectionIdentifierValidator = example_validator,
       DefaultClientIdentifierValidator = example_validator \<rparr>"

definition addr_A :: AccAddress where
  "addr_A = replicate 20 1"

definition addr_B :: AccAddress where
  "addr_B = replicate 20 2"

definition atoms :: "int \<Rightarrow> Coins" where
  "atoms n = [\<lparr> denomination = ''atom'', quantity = n \<rparr>]"

definition transfer_example :: "string \<Rightarrow> string \<Rightarrow> Coins \<Rightarrow> MsgTransfer" where
  "transfer_example port channel coins = NewMsgTransfer port channel coins addr_A addr_B True"

text \<open>
  A transfer after the one of section 8 (100 atoms from \<open>addr_A\<close> to \<open>addr_B\<close>), and the
  same with a zero and with a negative quantity.
\<close>

definition transfer_valid :: MsgTransfer where
  "transfer_valid = transfer_example ''transferport'' ''channelalpha'' (atoms 100)"

definition transfer_zero :: MsgTransfer where
  "transfer_zero = transfer_example ''transferport'' ''channelalpha'' (atoms 0)"

definition transfer_negative :: MsgTransfer where
  "transfer_negative = transfer_example ''transferport'' ''channelalpha'' (atoms (- 1))"

text \<open>
  Two transfers in which every field but one identifier is wrong as well: the amount is
  negative and both addresses are empty.
\<close>

definition transfer_bad_port :: MsgTransfer where
  "transfer_bad_port = NewMsgTransfer [] [] (atoms (- 1)) [] [] False"

definition transfer_bad_channel :: MsgTransfer where
  "transfer_bad_channel = NewMsgTransfer ''transferport'' [] (atoms (- 1)) [] [] False"

text \<open>The fields of \<open>transfer_valid\<close>, set one by one in the opposite order.\<close>

definition transfer_valid_rebuilt :: MsgTransfer where
  "transfer_valid_rebuilt =
     (NewMsgTransfer [] [] [] [] [] False)
       \<lparr> Source := True, Receiver := addr_B, Sender := addr_A, Amount := atoms 100,
         SourceChannel := ''channelalpha'', SourcePort := ''transferport'' \<rparr>"

definition example_codespace :: string where
  "example_codespace = ''transfer''"

definition example_codec :: Codec where
  "example_codec =
     \<lparr> member_order = [Field_SourcePort, Field_SourceChannel, Field_Amount, Field_Sender,
         Field_Receiver, Field_Source],
       encode_string = (\<lambda>s. [CHR 0x22] @ s @ [CHR 0x22]),
       encode_Coins =
         (\<lambda>coins. ''['' @
            join_members (map (\<lambda>c. [CHR 0x22] @ denomination c @ [CHR 0x22]) coins) @ '']''),
       encode_AccAddress = (\<lambda>aa. [CHR 0x22] @ map (\<lambda>b. char_of (unat b)) aa @ [CHR 0x22]),
       encode_bool = (\<lambda>b. if b then ''true'' else ''false'') \<rparr>"

definition packet_valid :: "string PacketI" where
  "packet_valid = \<lparr> PacketI_ValidateBasic = None \<rparr>"

definition packet_invalid :: "string PacketI" where
  "packet_invalid = \<lparr> PacketI_ValidateBasic = Some (Foreign ''invalid packet'') \<rparr>"

definition proof_present :: "nat commitment_Proof" where
  "proof_present = \<lparr> Proof = Some 7 \<rparr>"

definition proof_nil :: "nat commitment_Proof" where
  "proof_nil = \<lparr> Proof = None \<rparr>"

definition recv_example ::
  "string PacketI option \<Rightarrow> nat commitment_Proof slice \<Rightarrow> (string, nat) MsgRecvPacket" where
  "recv_example packet proofs = NewMsgRecvPacket packet proofs 10 addr_A"

section \<open>Facts about the collaborators as modelled\<close>

lemmas transfer_examples =
  transfer_valid_def transfer_zero_def transfer_negative_def transfer_bad_port_def
  transfer_bad_channel_def transfer_example_def NewMsgTransfer_def atoms_def addr_A_def
  addr_B_def example_host_def example_validator_def

lemmas recv_examples =
  recv_example_def NewMsgRecvPacket_def packet_valid_def packet_invalid_def proof_present_def
  proof_nil_def addr_A_def example_codespace_def

text \<open>
  With the two predicates as the specification describes them, an amount of unique
  denominations whose quantities are all strictly positive passes both, and an amount
  fails the second exactly when one of its quantities is zero or negative.
\<close>

lemma Coins_unique_positive:
  assumes "distinct (map denomination coins)" and "list_all (\<lambda>c. 0 < quantity c) coins"
  shows "Coins_IsValid coins \<and> Coins_IsAllPositive coins"
  using assms
  by (auto simp: Coins_IsValid_def Coins_IsAllPositive_def list_all_iff intro: less_imp_le)

lemma has_nonpositive_quantity_iff:
  "has_nonpositive_quantity coins \<longleftrightarrow> \<not> Coins_IsAllPositive coins"
  by (auto simp: has_nonpositive_quantity_def Coins_IsAllPositive_def list_all_iff list_ex_iff
      not_less)

lemma len_0_iff: "len s = 0 \<longleftrightarrow> s = None \<or> s = Some []"
  by (simp add: len_def split: option.splits)

section \<open>Validation of a transfer\<close>

text \<open>
  C1: a transfer whose source port and source channel pass the identifier validators,
  whose amount is well-formed and strictly positive in every entry (it passes \<open>IsValid\<close>
  and \<open>IsAllPositive\<close>) and whose sender and receiver are not empty passes
  \<open>ValidateBasic\<close>: the method returns no error.
\<close>

theorem MsgTransfer_ValidateBasic_accepts:
  assumes "DefaultConnectionIdentifierValidator host (SourcePort msg) = None"
    and "DefaultClientIdentifierValidator host (SourceChannel msg) = None"
    and "Coins_IsValid (Amount msg)"
    and "Coins_IsAllPositive (Amount msg)"
    and "\<not> AccAddress_Empty (Sender msg)"
    and "\<not> AccAddress_Empty (Receiver msg)"
  shows "MsgTransfer_ValidateBasic host msg = None"
  using assms by (simp add: MsgTransfer_ValidateBasic_def)

text \<open>The transfer of 100 atoms meets every condition and is accepted.\<close>

theorem MsgTransfer_ValidateBasic_accepts_witness:
  "DefaultConnectionIdentifierValidator example_host (SourcePort transfer_valid) = None
   \<and> DefaultClientIdentifierValidator example_host (SourceChannel transfer_valid) = None
   \<and> Coins_IsValid (Amount transfer_valid) \<and> Coins_IsAllPositive (Amount transfer_valid)
   \<and> \<not> AccAddress_Empty (Sender transfer_valid) \<and> \<not> AccAddress_Empty (Receiver transfer_valid)
   \<and> MsgTransfer_ValidateBasic example_host transfer_valid = None"
proof -
  have port: "DefaultConnectionIdentifierValidator example_host (SourcePort transfer_valid) = None"
    by (simp add: transfer_examples)
  have channel: "DefaultClientIdentifierValidator example_host (SourceChannel transfer_valid) = None"
    by (simp add: transfer_examples)
  have valid: "Coins_IsValid (Amount transfer_valid)"
    by (simp add: transfer_examples Coins_IsValid_def)
  have positive: "Coins_IsAllPositive (Amount transfer_valid)"
    by (simp add: transfer_examples Coins_IsAllPositive_def)
  have sender: "\<not> AccAddress_Empty (Sender transfer_valid)"
    by (simp add: transfer_examples AccAddress_Empty_def)
  have receiver: "\<not> AccAddress_Empty (Receiver transfer_valid)"
    by (simp add: transfer_examples AccAddress_Empty_def)
  from MsgTransfer_ValidateBasic_accepts [OF port channel valid positive sender receiver]
    port channel valid positive sender receiver
  show ?thesis by simp
qed

text \<open>
  C2: \<open>ValidateBasic\<close> on a transfer checks the source port first: when the validator
  rejects it, the result is that validator's error wrapped as ``invalid source port ID'',
  whatever the other fields hold. It checks the source channel second: when the port is
  accepted and the channel rejected, the result is the channel validator's error wrapped
  as ``invalid source channel ID'', whatever the amount and the addresses are. No other
  check comes before these two. The rules applied are those of the validators the method
  calls: \<open>DefaultConnectionIdentifierValidator\<close> on the port and
  \<open>DefaultClientIdentifierValidator\<close> on the channel.
\<close>

theorem MsgTransfer_ValidateBasic_identifiers_first:
  "(DefaultConnectionIdentifierValidator host (SourcePort msg) = Some e \<longrightarrow>
      MsgTransfer_ValidateBasic host msg =
        Some (Converted (Wrap e ''invalid source port ID'')))
   \<and> (DefaultConnectionIdentifierValidator host (SourcePort msg) = None \<longrightarrow>
      DefaultClientIdentifierValidator host (SourceChannel msg) = Some e' \<longrightarrow>
      MsgTransfer_ValidateBasic host msg =
        Some (Converted (Wrap e' ''invalid source channel ID'')))"
  by (simp add: MsgTransfer_ValidateBasic_def ConvertError_def)

text \<open>
  Two transfers with a negative amount and empty addresses: with an empty port the port
  error is returned, with a good port and an empty channel the channel error.
\<close>

theorem MsgTransfer_ValidateBasic_identifiers_first_witness:
  "MsgTransfer_ValidateBasic example_host transfer_bad_port =
     Some (Converted (Wrap (Foreign ''invalid identifier'') ''invalid source port ID''))
   \<and> MsgTransfer_ValidateBasic example_host transfer_bad_channel =
     Some (Converted (Wrap (Foreign ''invalid identifier'') ''invalid source channel ID''))"
proof -
  have port: "DefaultConnectionIdentifierValidator example_host (SourcePort transfer_bad_port) =
      Some (Foreign ''invalid identifier'')"
    by (simp add: transfer_examples)
  have port': "DefaultConnectionIdentifierValidator example_host
      (SourcePort transfer_bad_channel) = None"
    by (simp add: transfer_examples)
  have channel: "DefaultClientIdentifierValidator example_host
      (SourceChannel transfer_bad_channel) = Some (Foreign ''invalid identifier'')"
    by (simp add: transfer_examples)
  from MsgTransfer_ValidateBasic_identifiers_first
      [where host = example_host and msg = transfer_bad_port
        and e = "Foreign ''invalid identifier''"]
    MsgTransfer_ValidateBasic_identifiers_first
      [where host = example_host and msg = transfer_bad_channel
        and e' = "Foreign ''invalid identifier''"]
    port port' channel
  show ?thesis by simp
qed

text \<open>
  C3, as the code has it: for a transfer whose source port and source channel are valid,
  an amount that passes the well-formedness check \<open>IsValid\<close> and fails \<open>IsAllPositive\<close>
  is refused with the non-positive-amount error \<open>ErrInsufficientCoins\<close>; an amount that
  fails \<open>IsValid\<close> is refused before that, with the invalid-amount error
  \<open>ErrInvalidCoins\<close>, whatever its quantities.
\<close>

theorem MsgTransfer_ValidateBasic_amount_order:
  assumes "DefaultConnectionIdentifierValidator host (SourcePort msg) = None"
    and "DefaultClientIdentifierValidator host (SourceChannel msg) = None"
  shows "(Coins_IsValid (Amount msg) \<longrightarrow> \<not> Coins_IsAllPositive (Amount msg) \<longrightarrow>
            MsgTransfer_ValidateBasic host msg =
              Some (ErrInsufficientCoins ''transfer amount must be positive''))
       \<and> (\<not> Coins_IsValid (Amount msg) \<longrightarrow>
            MsgTransfer_ValidateBasic host msg =
              Some (ErrInvalidCoins ''transfer amount is invalid''))"
  using assms by (simp add: MsgTransfer_ValidateBasic_def)

text \<open>
  The transfer with a quantity of zero is well-formed and not all positive: it gets the
  non-positive-amount error. With a quantity of -1 it is not well-formed and gets the
  invalid-amount error.
\<close>

theorem MsgTransfer_ValidateBasic_amount_order_witness:
  "Coins_IsValid (Amount transfer_zero) \<and> \<not> Coins_IsAllPositive (Amount transfer_zero)
   \<and> has_nonpositive_quantity (Amount transfer_zero)
   \<and> MsgTransfer_ValidateBasic example_host transfer_zero =
       Some (ErrInsufficientCoins ''transfer amount must be positive'')
   \<and> \<not> Coins_IsValid (Amount transfer_negative)
   \<and> MsgTransfer_ValidateBasic example_host transfer_negative =
       Some (ErrInvalidCoins ''transfer amount is invalid'')"
proof -
  have port: "DefaultConnectionIdentifierValidator example_host (SourcePort transfer_zero) = None"
    "DefaultConnectionIdentifierValidator example_host (SourcePort transfer_negative) = None"
    by (simp_all add: transfer_examples)
  have channel: "DefaultClientIdentifierValidator example_host (SourceChannel transfer_zero) = None"
    "DefaultClientIdentifierValidator example_host (SourceChannel transfer_negative) = None"
    by (simp_all add: transfer_examples)
  have zero: "Coins_IsValid (Amount transfer_zero)" "\<not> Coins_IsAllPositive (Amount transfer_zero)"
    "has_nonpositive_quantity (Amount transfer_zero)"
    by (simp_all add: transfer_examples Coins_IsValid_def Coins_IsAllPositive_def
        has_nonpositive_quantity_def)
  have negative: "\<not> Coins_IsValid (Amount transfer_negative)"
    by (simp add: transfer_examples Coins_IsValid_def)
  from MsgTransfer_ValidateBasic_amount_order [OF port(1) channel(1)]
    MsgTransfer_ValidateBasic_amount_order [OF port(2) channel(2)] zero negative
  show ?thesis by simp
qed

text \<open>
  C3 as the specification words it fails: a transfer with valid identifiers whose amount
  has the quantity -1 contains a negative quantity, and it is refused with the
  invalid-amount error, not with the non-positive-amount error.
\<close>

theorem MsgTransfer_ValidateBasic_negative_counterexample:
  "DefaultConnectionIdentifierValidator example_host (SourcePort transfer_negative) = None
   \<and> DefaultClientIdentifierValidator example_host (SourceChannel transfer_negative) = None
   \<and> has_nonpositive_quantity (Amount transfer_negative)
   \<and> MsgTransfer_ValidateBasic example_host transfer_negative =
       Some (ErrInvalidCoins ''transfer amount is invalid'')
   \<and> MsgTransfer_ValidateBasic example_host transfer_negative \<noteq>
       Some (ErrInsufficientCoins ''transfer amount must be positive'')"
  by (simp add: transfer_examples has_nonpositive_quantity_def MsgTransfer_ValidateBasic_def
      Coins_IsValid_def)

section \<open>Validation of a packet receipt\<close>

text \<open>The loop over the proofs returns its error exactly when some proof is empty.\<close>

lemma range_Proofs_eq:
  "range_Proofs cs ps =
     (if list_ex empty_proof ps then Some (ErrInvalidProof cs ''cannot submit an empty proof'')
      else None)"
  by (induction ps) (simp_all add: empty_proof_def)

text \<open>It returns at the first empty proof: what follows that proof is never read.\<close>

lemma range_Proofs_first:
  "list_all (\<lambda>q. \<not> empty_proof q) pre \<Longrightarrow> empty_proof p \<Longrightarrow>
     range_Proofs cs (pre @ p # post) =
       Some (ErrInvalidProof cs ''cannot submit an empty proof'')"
  by (induction pre) (simp_all add: empty_proof_def)

text \<open>
  C4: for a packet receipt whose height is not zero: when the proofs are empty (a nil
  slice or one of length 0), \<open>ValidateBasic\<close> fails with the missing-proofs error;
  otherwise, when some proof is empty, it fails with the empty-proof error, however
  well-formed the other proofs are. The first empty proof decides: replacing the proofs
  after it by any others leaves the result as it is.
\<close>

theorem MsgRecvPacket_ValidateBasic_proofs:
  assumes "Height msg \<noteq> 0"
  shows "(len (Proofs msg) = 0 \<longrightarrow>
            MsgRecvPacket_ValidateBasic cs msg =
              Inr (Some (Converted (ErrInvalidProof cs ''missing proofs''))))
       \<and> (len (Proofs msg) \<noteq> 0 \<longrightarrow> list_ex empty_proof (elems (Proofs msg)) \<longrightarrow>
            MsgRecvPacket_ValidateBasic cs msg =
              Inr (Some (Converted (ErrInvalidProof cs ''cannot submit an empty proof''))))
       \<and> (Proofs msg = Some (pre @ p # post) \<longrightarrow> list_all (\<lambda>q. \<not> empty_proof q) pre \<longrightarrow>
            empty_proof p \<longrightarrow>
            MsgRecvPacket_ValidateBasic cs (msg\<lparr>Proofs := Some (pre @ p # post')\<rparr>) =
              MsgRecvPacket_ValidateBasic cs msg)"
proof (intro conjI impI)
  assume "len (Proofs msg) = 0"
  with assms show "MsgRecvPacket_ValidateBasic cs msg =
      Inr (Some (Converted (ErrInvalidProof cs ''missing proofs'')))"
    by (simp add: MsgRecvPacket_ValidateBasic_def ConvertError_def)
next
  assume "len (Proofs msg) \<noteq> 0" and "list_ex empty_proof (elems (Proofs msg))"
  with assms show "MsgRecvPacket_ValidateBasic cs msg =
      Inr (Some (Converted (ErrInvalidProof cs ''cannot submit an empty proof'')))"
    by (simp add: MsgRecvPacket_ValidateBasic_def ConvertError_def range_Proofs_eq len_0_iff)
next
  assume ps: "Proofs msg = Some (pre @ p # post)"
    and pre: "list_all (\<lambda>q. \<not> empty_proof q) pre" and p: "empty_proof p"
  from assms ps pre p
  show "MsgRecvPacket_ValidateBasic cs (msg\<lparr>Proofs := Some (pre @ p # post')\<rparr>) =
      MsgRecvPacket_ValidateBasic cs msg"
    by (simp add: MsgRecvPacket_ValidateBasic_def len_def elems_def range_Proofs_first)
qed

text \<open>
  At height 10: no proofs and a nil slice of proofs give the missing-proofs error; a
  present, an empty and a present proof give the empty-proof error, and so does the same
  sequence with its last proof replaced.
\<close>

theorem MsgRecvPacket_ValidateBasic_proofs_witness:
  "MsgRecvPacket_ValidateBasic example_codespace (recv_example (Some packet_valid) (Some [])) =
     Inr (Some (Converted (ErrInvalidProof example_codespace ''missing proofs'')))
   \<and> MsgRecvPacket_ValidateBasic example_codespace (recv_example (Some packet_valid) None) =
     Inr (Some (Converted (ErrInvalidProof example_codespace ''missing proofs'')))
   \<and> MsgRecvPacket_ValidateBasic example_codespace
       (recv_example (Some packet_valid) (Some [proof_present, proof_nil, proof_present])) =
     Inr (Some (Converted (ErrInvalidProof example_codespace ''cannot submit an empty proof'')))
   \<and> MsgRecvPacket_ValidateBasic example_codespace
       ((recv_example (Some packet_valid) (Some [proof_present, proof_nil, proof_present]))
          \<lparr>Proofs := Some ([proof_present] @ proof_nil # [proof_nil, proof_nil])\<rparr>) =
     MsgRecvPacket_ValidateBasic example_codespace
       (recv_example (Some packet_valid) (Some [proof_present, proof_nil, proof_present]))"
proof -
  let ?three = "recv_example (Some packet_valid) (Some [proof_present, proof_nil, proof_present])"
  have height: "Height (recv_example packet proofs) \<noteq> 0" for packet proofs
    by (simp add: recv_examples)
  have none: "len (Proofs (recv_example (Some packet_valid) (Some []))) = 0"
    "len (Proofs (recv_example (Some packet_valid) None)) = 0"
    by (simp_all add: recv_examples len_def)
  have some: "len (Proofs ?three) \<noteq> 0" "list_ex empty_proof (elems (Proofs ?three))"
    by (simp_all add: recv_examples len_def elems_def empty_proof_def)
  have first: "Proofs ?three = Some ([proof_present] @ proof_nil # [proof_present])"
    "list_all (\<lambda>q. \<not> empty_proof q) [proof_present]" "empty_proof proof_nil"
    by (simp_all add: recv_examples empty_proof_def)
  from MsgRecvPacket_ValidateBasic_proofs [OF height,
      where packet1 = "Some packet_valid" and proofs1 = "Some []" and cs = example_codespace]
    MsgRecvPacket_ValidateBasic_proofs [OF height,
      where packet1 = "Some packet_valid" and proofs1 = None and cs = example_codespace]
    MsgRecvPacket_ValidateBasic_proofs [OF height,
      where packet1 = "Some packet_valid"
        and proofs1 = "Some [proof_present, proof_nil, proof_present]"
        and cs = example_codespace and pre = "[proof_present]" and p = proof_nil
        and post = "[proof_present]" and post' = "[proof_nil, proof_nil]"]
    none some first
  show ?thesis by simp
qed

text \<open>
  C5: a packet receipt of height 0 fails \<open>ValidateBasic\<close> with the invalid-height error,
  whatever its packet, its proofs and its signer are.
\<close>

theorem MsgRecvPacket_ValidateBasic_zero_height:
  "MsgRecvPacket_ValidateBasic cs
       \<lparr> Packet = packet, Proofs = proofs, Height = 0, Signer = signer \<rparr> =
     Inr (Some (Converted (ErrInvalidHeight cs ''height must be > 0'')))"
  by (simp add: MsgRecvPacket_ValidateBasic_def ConvertError_def)




section \<open>Signers, routes and constructors\<close>

text \<open>
  C7: \<open>GetSigners\<close> of a transfer is the one-element sequence of its sender, and
  \<open>GetSigners\<close> of a packet receipt is the one-element sequence of its signer, for every
  message, whatever validation says about it.
\<close>

theorem GetSigners_singleton:
  "MsgTransfer_GetSigners m = [Sender m] \<and> length (MsgTransfer_GetSigners m) = 1
   \<and> MsgRecvPacket_GetSigners r = [Signer r] \<and> length (MsgRecvPacket_GetSigners r) = 1"
  by (simp add: MsgTransfer_GetSigners_def MsgRecvPacket_GetSigners_def)

text \<open>
  C9: the constructors check nothing. For all arguments, each field of the message built
  is the argument given for it, nil proofs, a nil packet, a zero height and empty
  identifiers and addresses included. A message that is not valid can be built and is
  refused by \<open>ValidateBasic\<close>: a transfer built with an empty sender never passes, and
  a receipt built with nil proofs, height 0 and an empty signer gets the invalid-height
  error.
\<close>

theorem constructors_store_arguments:
  "SourcePort (NewMsgTransfer sourcePort sourceChannel amount sender receiver source)
     = sourcePort
   \<and> SourceChannel (NewMsgTransfer sourcePort sourceChannel amount sender receiver source)
     = sourceChannel
   \<and> Amount (NewMsgTransfer sourcePort sourceChannel amount sender receiver source) = amount
   \<and> Sender (NewMsgTransfer sourcePort sourceChannel amount sender receiver source) = sender
   \<and> Receiver (NewMsgTransfer sourcePort sourceChannel amount sender receiver source)
     = receiver
   \<and> Source (NewMsgTransfer sourcePort sourceChannel amount sender receiver source) = source
   \<and> Packet (NewMsgRecvPacket packet proofs height signer) = packet
   \<and> Proofs (NewMsgRecvPacket packet proofs height signer) = proofs
   \<and> Height (NewMsgRecvPacket packet proofs height signer) = height
   \<and> Signer (NewMsgRecvPacket packet proofs height signer) = signer
   \<and> MsgTransfer_ValidateBasic host
       (NewMsgTransfer sourcePort sourceChannel amount [] receiver source) \<noteq> None
   \<and> MsgRecvPacket_ValidateBasic cs (NewMsgRecvPacket packet None 0 []) =
       Inr (Some (Converted (ErrInvalidHeight cs ''height must be > 0'')))"
  by (simp add: NewMsgTransfer_def NewMsgRecvPacket_def MsgTransfer_ValidateBasic_def
      MsgRecvPacket_ValidateBasic_def ConvertError_def AccAddress_Empty_def
      split: option.splits)

text \<open>
  C10: \<open>Route\<close> reads no field: on every transfer and on every packet receipt it is the
  constant \<open>RouterKey\<close>, so the two message types have the same route.
\<close>

theorem Route_constant:
  "MsgTransfer_Route RouterKey m1 = RouterKey \<and> MsgRecvPacket_Route RouterKey m2 = RouterKey
   \<and> MsgTransfer_Route RouterKey m1 = MsgRecvPacket_Route RouterKey m2"
  by (simp add: MsgTransfer_Route_def MsgRecvPacket_Route_def)

section \<open>Sign bytes\<close>

text \<open>
  Sorting by key gives the same sequence for two arrangements of the same members,
  provided a key belongs to one member only.
\<close>

lemma sort_key_permuted:
  fixes xs ys :: "('k::linorder \<times> 'v) list"
  assumes perm: "mset xs = mset ys"
    and key: "\<And>a b. a \<in> set xs \<Longrightarrow> b \<in> set xs \<Longrightarrow> fst a = fst b \<Longrightarrow> a = b"
  shows "sort_key fst xs = sort_key fst ys"
proof (rule properties_for_sort_key)
  show "mset (sort_key fst ys) = mset xs"
    using perm by simp
  show "sorted (map fst (sort_key fst ys))"
    by simp
  fix k
  assume "k \<in> set (sort_key fst ys)"
  then have k: "k \<in> set xs"
    using perm by (metis mset_sort set_mset_mset)
  have same: "filter (\<lambda>x. fst k = fst x) zs = filter ((=) k) zs" if "set zs \<subseteq> set xs" for zs
  proof (rule filter_cong [OF refl])
    fix x
    assume "x \<in> set zs"
    with that have x: "x \<in> set xs" ..
    show "(fst k = fst x) = (k = x)"
    proof
      assume "fst k = fst x"
      then show "k = x" by (rule key [OF k x])
    next
      assume "k = x"
      then show "fst k = fst x" by simp
    qed
  qed
  have "filter (\<lambda>x. fst k = fst x) (sort_key fst ys) = filter ((=) k) (sort_key fst ys)"
    using perm by (intro same) (metis mset_sort set_mset_mset subset_refl)
  also have "\<dots> = replicate (count (mset xs) k) k"
    using perm by (simp add: replicate_count_mset_eq_filter_eq [symmetric])
  also have "\<dots> = filter ((=) k) xs"
    by (simp add: replicate_count_mset_eq_filter_eq)
  also have "\<dots> = filter (\<lambda>x. fst k = fst x) xs"
    by (simp add: same)
  finally show "filter (\<lambda>x. fst k = fst x) (sort_key fst ys) = filter (\<lambda>x. fst k = fst x) xs" .
qed

lemma json_tag_inj: "json_tag f = json_tag g \<Longrightarrow> f = g"
  by (cases f; cases g) simp_all

lemma field_json_member_order:
  "field_json (cdc\<lparr>member_order := order'\<rparr>) m f = field_json cdc m f"
  by (cases f) simp_all

lemma field_json_fields:
  assumes "SourcePort m1 = SourcePort m2" and "SourceChannel m1 = SourceChannel m2"
    and "Amount m1 = Amount m2" and "Sender m1 = Sender m2" and "Receiver m1 = Receiver m2"
    and "Source m1 = Source m2"
  shows "field_json cdc m2 f = field_json cdc m1 f"
  using assms by (cases f) simp_all

text \<open>
  C8: the sign bytes are a function of the six field values. Two transfers whose fields
  are equal have identical sign bytes, also when the marshaller is handed the fields in
  another order: any rearrangement \<open>order'\<close> of the codec's member order gives the same
  bytes.
\<close>

theorem MsgTransfer_GetSignBytes_deterministic:
  assumes "SourcePort m1 = SourcePort m2" and "SourceChannel m1 = SourceChannel m2"
    and "Amount m1 = Amount m2" and "Sender m1 = Sender m2" and "Receiver m1 = Receiver m2"
    and "Source m1 = Source m2"
    and "mset order' = mset (member_order ModuleCdc)"
  shows "MsgTransfer_GetSignBytes ModuleCdc m1 =
         MsgTransfer_GetSignBytes (ModuleCdc\<lparr>member_order := order'\<rparr>) m2"
proof -
  let ?member = "\<lambda>f. (json_tag f, field_json ModuleCdc m1 f)"
  have m2: "MustMarshalJSON (ModuleCdc\<lparr>member_order := order'\<rparr>) m2 = map ?member order'"
    by (simp add: MustMarshalJSON_def field_json_member_order
        field_json_fields [OF assms(1-6)])
  have m1: "MustMarshalJSON ModuleCdc m1 = map ?member (member_order ModuleCdc)"
    by (simp add: MustMarshalJSON_def)
  have "mset (map ?member (member_order ModuleCdc)) = mset (map ?member order')"
    using assms(7) by simp
  moreover have "a = b"
    if "a \<in> set (map ?member (member_order ModuleCdc))"
      and "b \<in> set (map ?member (member_order ModuleCdc))" and "fst a = fst b" for a b
    using that by (auto dest: json_tag_inj)
  ultimately have "sort_key fst (map ?member (member_order ModuleCdc)) =
      sort_key fst (map ?member order')"
    by (rule sort_key_permuted)
  then show ?thesis
    by (simp add: MsgTransfer_GetSignBytes_def MustSortJSON_def m1 m2)
qed

text \<open>
  The transfer of 100 atoms, built by the constructor and marshalled in the order of the
  struct, and the same transfer built field by field and marshalled in the opposite order.
\<close>

theorem MsgTransfer_GetSignBytes_deterministic_witness:
  "mset (rev (member_order example_codec)) = mset (member_order example_codec)
   \<and> MsgTransfer_GetSignBytes example_codec transfer_valid =
     MsgTransfer_GetSignBytes (example_codec\<lparr>member_order := rev (member_order example_codec)\<rparr>)
       transfer_valid_rebuilt"
proof -
  have fields: "SourcePort transfer_valid = SourcePort transfer_valid_rebuilt"
    "SourceChannel transfer_valid = SourceChannel transfer_valid_rebuilt"
    "Amount transfer_valid = Amount transfer_valid_rebuilt"
    "Sender transfer_valid = Sender transfer_valid_rebuilt"
    "Receiver transfer_valid = Receiver transfer_valid_rebuilt"
    "Source transfer_valid = Source transfer_valid_rebuilt"
    by (simp_all add: transfer_valid_def transfer_valid_rebuilt_def transfer_example_def
        NewMsgTransfer_def)
  have order: "mset (rev (member_order example_codec)) = mset (member_order example_codec)"
    by simp
  from MsgTransfer_GetSignBytes_deterministic [OF fields order] order
  show ?thesis by simp
qed

end
